theory Spec2Isabelle
  imports Complex_Main
begin

section \<open>Values of the host language\<close>

text \<open>
  Both classes of \<^verbatim>\<open>example.ts\<close> are generic in the payload and the error type, and
  at run time hold any JavaScript value. The only operations the code applies to such a
  value are storing it, handing it back, comparing it with \<^verbatim>\<open>undefined\<close> and
  \<^verbatim>\<open>null\<close>, and the logical negation \<^verbatim>\<open>!v\<close>. The value universe: the two absent
  markers, booleans, numbers (finite ones as reals, both zeros being the one \<open>0\<close>; NaN and
  the two infinities apart), big integers, strings, and a reference standing for any
  object, array, function or symbol.
\<close>

datatype jsval =
    JUndefined
  | JNull
  | JBool bool
  | JNum real
  | JNaN
  | JInfinity bool
  | JBigInt int
  | JStr string
  | JObj nat

text \<open>
  The conversion behind \<^verbatim>\<open>!v\<close> and behind every condition: \<^verbatim>\<open>undefined\<close>,
  \<^verbatim>\<open>null\<close>, \<^verbatim>\<open>false\<close>, \<^verbatim>\<open>0\<close>, \<^verbatim>\<open>NaN\<close>, \<^verbatim>\<open>0n\<close> and \<^verbatim>\<open>''\<close> are
  falsy, every other value is truthy.
\<close>

fun ToBoolean :: "jsval \<Rightarrow> bool" where
  "ToBoolean JUndefined = False"
| "ToBoolean JNull = False"
| "ToBoolean (JBool b) = b"
| "ToBoolean (JNum x) = (x \<noteq> 0)"
| "ToBoolean JNaN = False"
| "ToBoolean (JInfinity _) = True"
| "ToBoolean (JBigInt n) = (n \<noteq> 0)"
| "ToBoolean (JStr s) = (s \<noteq> [])"
| "ToBoolean (JObj _) = True"

text \<open>
  Every \<^verbatim>\<open>throw\<close> of the file is \<^verbatim>\<open>throw new Error(text)\<close>. The one error the
  file does not throw itself is the engine's: a call that finds the call stack exhausted
  throws a \<^verbatim>\<open>RangeError\<close>, which a caller can catch like any other.
\<close>

datatype exn = Error string | RangeError

section \<open>Class Result\<close>

text \<open>
  The constructor's argument is an object; \<^verbatim>\<open>'payload' in args\<close> asks whether the key
  is there, whatever its value. A key that is absent is \<open>None\<close>. The interface types
  \<^verbatim>\<open>message\<close> as a string.
\<close>

record ResultArgs =
  args_payload :: "jsval option"
  args_error :: "jsval option"
  args_message :: "string option"

text \<open>
  The private fields \<^verbatim>\<open>#isOK\<close>, \<^verbatim>\<open>#payload\<close>, \<^verbatim>\<open>#error\<close> and \<^verbatim>\<open>#message\<close>.
\<close>

record Result =
  r_isOK :: bool
  r_payload :: jsval
  r_error :: jsval
  r_message :: string

text \<open>
  The field initialisers run before the constructor's body:
  \<^verbatim>\<open>#isOK = false; #payload; #error; #message = ''\<close>.
\<close>

definition Result_fields :: Result where
  "Result_fields =
     \<lparr>r_isOK = False, r_payload = JUndefined, r_error = JUndefined, r_message = ''''\<rparr>"

definition Result_constructor :: "ResultArgs \<Rightarrow> exn + Result" where
  "Result_constructor args =
     (let this = Result_fields in
      case args_payload args of
        Some p \<Rightarrow> Inr (this\<lparr>r_payload := p, r_isOK := True\<rparr>)
      | None \<Rightarrow>
          (case args_error args of
            None \<Rightarrow> Inl (Error ''To create a failed Result provide error'')
          | Some e \<Rightarrow>
              (let this = this\<lparr>r_error := e\<rparr> in
               case args_message args of
                 Some m \<Rightarrow> Inr (this\<lparr>r_message := m\<rparr>)
               | None \<Rightarrow> Inr (this\<lparr>r_message := ''No message has been provided''\<rparr>))))"

text \<open>
  A getter yields what it returns or throws, together with the object after the call.
  No getter body assigns to a field.
\<close>

definition Result_isOK :: "Result \<Rightarrow> bool \<times> Result" where
  "Result_isOK this = (r_isOK this, this)"

definition Result_payload :: "Result \<Rightarrow> (exn + jsval) \<times> Result" where
  "Result_payload this =
     (if \<not> r_isOK this \<or> \<not> ToBoolean (r_payload this)
      then (Inl (Error ''Payload is not available''), this)
      else (Inr (r_payload this), this))"

definition Result_error :: "Result \<Rightarrow> (exn + jsval) \<times> Result" where
  "Result_error this =
     (if r_isOK this \<or> \<not> ToBoolean (r_error this)
      then (Inl (Error ''No error information is available''), this)
      else (Inr (r_error this), this))"

text \<open>
  The condition of the \<^verbatim>\<open>message\<close> getter reads \<^verbatim>\<open>this.message\<close>, the getter itself,
  where its siblings read their private field: on an instance whose \<^verbatim>\<open>#isOK\<close> is false
  the getter calls itself before it does anything else. \<open>None\<close> is a call that neither
  returns nor throws one of the file's errors (an engine ends the unbounded recursion by
  exhausting its call stack).
\<close>

partial_function (option) Result_message :: "Result \<Rightarrow> ((exn + string) \<times> Result) option" where
  "Result_message this =
     (if r_isOK this then Some (Inl (Error ''No error message is available''), this)
      else Option.bind (Result_message this) (\<lambda>(v, this').
        case v of
          Inl e \<Rightarrow> Some (Inl e, this')
        | Inr s \<Rightarrow>
            if \<not> ToBoolean (JStr s)
            then Some (Inl (Error ''No error message is available''), this')
            else Some (Inr (r_message this'), this')))"

text \<open>
  The same getter as an engine runs it, on a call stack that has room for \<open>n\<close> more
  activations below the getter's own. The body is the one above; the nested read of
  \<^verbatim>\<open>this.message\<close> throws \<^verbatim>\<open>RangeError\<close> when no room is left, and an error thrown
  by the nested call passes through the body, which has no handler. Each activation
  starts from the object as the enclosing one holds it and hands back the object it
  leaves.
\<close>

fun Result_message_stack :: "nat \<Rightarrow> Result \<Rightarrow> (exn + string) \<times> Result" where
  "Result_message_stack n this =
     (if r_isOK this then (Inl (Error ''No error message is available''), this)
      else
        (case n of
          0 \<Rightarrow> (Inl RangeError, this)
        | Suc k \<Rightarrow>
            (case Result_message_stack k this of
              (Inl e, this') \<Rightarrow> (Inl e, this')
            | (Inr s, this') \<Rightarrow>
                if \<not> ToBoolean (JStr s)
                then (Inl (Error ''No error message is available''), this')
                else (Inr (r_message this'), this'))))"

declare Result_message_stack.simps [simp del]

section \<open>Class Option\<close>

text \<open>The private fields \<^verbatim>\<open>#isSome\<close> and \<^verbatim>\<open>#payload\<close>.\<close>

record Option =
  o_isSome :: bool
  o_payload :: jsval

definition Option_fields :: Option where
  "Option_fields = \<lparr>o_isSome = False, o_payload = JUndefined\<rparr>"

definition Option_constructor :: "jsval \<Rightarrow> Option" where
  "Option_constructor payload =
     (let this = Option_fields\<lparr>o_payload := payload\<rparr> in
      if payload \<noteq> JUndefined \<and> payload \<noteq> JNull then this\<lparr>o_isSome := True\<rparr> else this)"

definition Option_isSome :: "Option \<Rightarrow> bool \<times> Option" where
  "Option_isSome this = (o_isSome this, this)"

definition Option_payload :: "Option \<Rightarrow> (exn + jsval) \<times> Option" where
  "Option_payload this =
     (if \<not> o_isSome this then (Inl (Error ''No payload provided or null''), this)
      else (Inr (o_payload this), this))"

definition Option_unwrap :: "Option \<Rightarrow> jsval \<times> Option" where
  "Option_unwrap this = (o_payload this, this)"

section \<open>Sequences of accessor calls\<close>

text \<open>
  A client holding an instance can only call its accessors, in any order and any number
  of times, catching what a call throws and going on. Each call starts from the object
  the previous call left, whether that call returned or threw. The outcomes are collected
  in call order; booleans and strings are injected into \<^typ>\<open>jsval\<close> so that all
  accessors share one result type. For \<^verbatim>\<open>Result\<close> the client calls from a stack with
  room for \<open>n\<close> more activations below the accessor's own.
\<close>

datatype Result_accessor = Get_isOK | Get_payload | Get_error | Get_message

fun Result_call :: "nat \<Rightarrow> Result_accessor \<Rightarrow> Result \<Rightarrow> (exn + jsval) \<times> Result" where
  "Result_call n Get_isOK this = (case Result_isOK this of (b, this') \<Rightarrow> (Inr (JBool b), this'))"
| "Result_call n Get_payload this = Result_payload this"
| "Result_call n Get_error this = Result_error this"
| "Result_call n Get_message this =
     (case Result_message_stack n this of
       (Inl e, this') \<Rightarrow> (Inl e, this')
     | (Inr s, this') \<Rightarrow> (Inr (JStr s), this'))"

fun Result_calls :: "nat \<Rightarrow> Result_accessor list \<Rightarrow> Result \<Rightarrow> (exn + jsval) list \<times> Result" where
  "Result_calls n [] this = ([], this)"
| "Result_calls n (a # as) this =
     (case Result_call n a this of (v, this') \<Rightarrow>
        (case Result_calls n as this' of (vs, this'') \<Rightarrow> (v # vs, this'')))"

datatype Option_accessor = Get_isSome | Get_opt_payload | Call_unwrap

fun Option_call :: "Option_accessor \<Rightarrow> Option \<Rightarrow> (exn + jsval) \<times> Option" where
  "Option_call Get_isSome this = (case Option_isSome this of (b, this') \<Rightarrow> (Inr (JBool b), this'))"
| "Option_call Get_opt_payload this = Option_payload this"
| "Option_call Call_unwrap this = (case Option_unwrap this of (v, this') \<Rightarrow> (Inr v, this'))"

fun Option_calls :: "Option_accessor list \<Rightarrow> Option \<Rightarrow> (exn + jsval) list \<times> Option" where
  "Option_calls [] this = ([], this)"
| "Option_calls (a # as) this =
     (case Option_call a this of (v, this') \<Rightarrow>
        (case Option_calls as this' of (vs, this'') \<Rightarrow> (v # vs, this'')))"

section \<open>The message getter\<close>

lemma Result_message_Some_isOK:
  assumes "Result_message this = Some y"
  shows "r_isOK this"
  using assms
proof (rule Result_message.raw_induct [where P = "\<lambda>x y. r_isOK x", rotated])
  fix f :: "Result \<Rightarrow> ((exn + string) \<times> Result) option" and x y
  assume IH: "\<And>x y. f x = Some y \<Longrightarrow> r_isOK x"
    and step: "(if r_isOK x then Some (Inl (Error ''No error message is available''), x)
      else Option.bind (f x) (\<lambda>(v, this').
        case v of
          Inl e \<Rightarrow> Some (Inl e, this')
        | Inr s \<Rightarrow>
            if \<not> ToBoolean (JStr s)
            then Some (Inl (Error ''No error message is available''), this')
            else Some (Inr (r_message this'), this'))) = Some y"
  show "r_isOK x"
  proof (rule ccontr)
    assume n: "\<not> r_isOK x"
    with step obtain w where "f x = Some w"
      by (auto simp: bind_eq_Some_conv)
    with IH [of x w] n show False by simp
  qed
qed

lemma Result_message_Failure: "\<not> r_isOK this \<Longrightarrow> Result_message this = None"
  using Result_message_Some_isOK [of this] by (cases "Result_message this") auto

lemma Result_message_Success:
  "r_isOK this \<Longrightarrow>
   Result_message this = Some (Inl (Error ''No error message is available''), this)"
  by (subst Result_message.simps) simp

text \<open>
  On a bounded stack the getter ends at every depth: with the same error as by the
  language's semantics on a success instance, with the engine's \<^verbatim>\<open>RangeError\<close> on a
  failure instance, where the recursion has no end. The object is handed back as it was.
\<close>

lemma Result_message_stack_Success:
  "r_isOK this \<Longrightarrow>
   Result_message_stack n this = (Inl (Error ''No error message is available''), this)"
  by (simp add: Result_message_stack.simps [of n this])

lemma Result_message_stack_Failure:
  "\<not> r_isOK this \<Longrightarrow> Result_message_stack n this = (Inl RangeError, this)"
proof (induction n)
  case 0
  then show ?case by (simp add: Result_message_stack.simps [of 0 this])
next
  case (Suc k)
  then show ?case by (simp add: Result_message_stack.simps [of "Suc k" this])
qed

lemma Result_message_stack_agrees:
  "Result_message this = Some y \<Longrightarrow> Result_message_stack n this = y"
  using Result_message_Some_isOK [of this y]
  by (auto simp: Result_message_Success Result_message_stack_Success)

lemma Result_message_stack_diverges:
  "Result_message this = None \<Longrightarrow> Result_message_stack n this = (Inl RangeError, this)"
  using Result_message_Success [of this]
  by (cases "r_isOK this") (simp_all add: Result_message_stack_Failure)

section \<open>Construction\<close>

lemma Result_constructor_payload:
  "args_payload args = Some p \<Longrightarrow>
   Result_constructor args =
     Inr \<lparr>r_isOK = True, r_payload = p, r_error = JUndefined, r_message = ''''\<rparr>"
  by (simp add: Result_constructor_def Result_fields_def)

lemma Result_constructor_error:
  "args_payload args = None \<Longrightarrow> args_error args = Some e \<Longrightarrow>
   Result_constructor args =
     Inr \<lparr>r_isOK = False, r_payload = JUndefined, r_error = e,
          r_message = (case args_message args of
                         Some m \<Rightarrow> m | None \<Rightarrow> ''No message has been provided'')\<rparr>"
  by (simp add: Result_constructor_def Result_fields_def split: option.splits)

lemma Result_constructor_neither:
  "args_payload args = None \<Longrightarrow> args_error args = None \<Longrightarrow>
   Result_constructor args = Inl (Error ''To create a failed Result provide error'')"
  by (simp add: Result_constructor_def)

lemma Result_payload_truthy_returns:
  assumes "args_payload args = Some p" and "ToBoolean p"
  shows "\<exists>this. Result_constructor args = Inr this
           \<and> Result_isOK this = (True, this)
           \<and> Result_payload this = (Inr p, this)"
  using assms by (simp add: Result_constructor_payload Result_isOK_def Result_payload_def)

lemma Result_error_truthy_returns:
  assumes "args_payload args = None" and "args_error args = Some e" and "ToBoolean e"
  shows "\<exists>this. Result_constructor args = Inr this
           \<and> Result_isOK this = (False, this)
           \<and> Result_error this = (Inr e, this)"
  using assms by (simp add: Result_constructor_error Result_isOK_def Result_error_def)

text \<open>
  C1. Claimed: for every success input \<open>p\<close>, falsy ones included, the instance built from
  \<^verbatim>\<open>{payload: p}\<close> has \<^verbatim>\<open>isOK\<close> true and its \<^verbatim>\<open>payload\<close> getter returns \<open>p\<close>.
  The code does otherwise: for every falsy \<open>p\<close> (such as \<^verbatim>\<open>0\<close>, \<^verbatim>\<open>''\<close> or
  \<^verbatim>\<open>false\<close>) the instance is built, \<^verbatim>\<open>isOK\<close> is true, and the \<^verbatim>\<open>payload\<close> getter
  throws \<^verbatim>\<open>Error('Payload is not available')\<close>, since its guard tests \<^verbatim>\<open>!this.#payload\<close>.
\<close>

theorem Result_payload_falsy_throws:
  assumes "args_payload args = Some p" and "\<not> ToBoolean p"
  shows "\<exists>this. Result_constructor args = Inr this
           \<and> Result_isOK this = (True, this)
           \<and> Result_payload this = (Inl (Error ''Payload is not available''), this)"
  using assms by (simp add: Result_constructor_payload Result_isOK_def Result_payload_def)

theorem Result_payload_falsy_throws_witness:
  "\<exists>this. Result_constructor
            \<lparr>args_payload = Some (JNum 0), args_error = None, args_message = None\<rparr> = Inr this
         \<and> Result_isOK this = (True, this)
         \<and> Result_payload this = (Inl (Error ''Payload is not available''), this)"
  using Result_payload_falsy_throws
    [of "\<lparr>args_payload = Some (JNum 0), args_error = None, args_message = None\<rparr>" "JNum 0"]
  by simp

text \<open>
  C2. Claimed: the instance built from \<^verbatim>\<open>{error: e, message: m}\<close> returns \<open>m\<close> from its
  \<^verbatim>\<open>message\<close> getter, and the default text when the message is omitted. The
  constructor does store \<open>m\<close>, or the default text, in \<^verbatim>\<open>#message\<close>; the getter never
  hands it back: on every instance built from the failure shape the call does not return.
\<close>

theorem Result_message_never_returns:
  assumes "args_payload args = None" and "args_error args = Some e"
  shows "\<exists>this. Result_constructor args = Inr this
           \<and> r_message this =
               (case args_message args of
                  Some m \<Rightarrow> m | None \<Rightarrow> ''No message has been provided'')
           \<and> Result_message this = None"
  using assms by (simp add: Result_constructor_error Result_message_Failure)

theorem Result_message_never_returns_witness:
  "(\<exists>this. Result_constructor
            \<lparr>args_payload = None, args_error = Some (JObj 0), args_message = Some ''timeout''\<rparr>
              = Inr this
         \<and> r_message this = ''timeout''
         \<and> Result_message this = None)
   \<and> (\<exists>this. Result_constructor
            \<lparr>args_payload = None, args_error = Some (JObj 0), args_message = None\<rparr> = Inr this
         \<and> r_message this = ''No message has been provided''
         \<and> Result_message this = None)"
  using Result_message_never_returns
    [of "\<lparr>args_payload = None, args_error = Some (JObj 0), args_message = Some ''timeout''\<rparr>"
        "JObj 0"]
    Result_message_never_returns
    [of "\<lparr>args_payload = None, args_error = Some (JObj 0), args_message = None\<rparr>" "JObj 0"]
  by simp

text \<open>
  C3. Claimed: for every pair \<open>(e, m)\<close>, falsy \<open>e\<close> included, the instance built from
  \<^verbatim>\<open>{error: e, message: m}\<close> has \<^verbatim>\<open>isOK\<close> false and its \<^verbatim>\<open>error\<close> getter returns
  \<open>e\<close>. The code does otherwise: for every falsy \<open>e\<close> (such as \<^verbatim>\<open>0\<close> or \<^verbatim>\<open>''\<close>) the
  instance is built, \<^verbatim>\<open>isOK\<close> is false, and the \<^verbatim>\<open>error\<close> getter throws
  \<^verbatim>\<open>Error('No error information is available')\<close>, since its guard tests \<^verbatim>\<open>!this.#error\<close>.
\<close>

theorem Result_error_falsy_throws:
  assumes "args_payload args = None" and "args_error args = Some e" and "\<not> ToBoolean e"
  shows "\<exists>this. Result_constructor args = Inr this
           \<and> Result_isOK this = (False, this)
           \<and> Result_error this = (Inl (Error ''No error information is available''), this)"
  using assms by (simp add: Result_constructor_error Result_isOK_def Result_error_def)

theorem Result_error_falsy_throws_witness:
  "\<exists>this. Result_constructor
            \<lparr>args_payload = None, args_error = Some (JNum 0), args_message = Some ''m''\<rparr>
              = Inr this
         \<and> Result_isOK this = (False, this)
         \<and> Result_error this = (Inl (Error ''No error information is available''), this)"
  using Result_error_falsy_throws
    [of "\<lparr>args_payload = None, args_error = Some (JNum 0), args_message = Some ''m''\<rparr>" "JNum 0"]
  by simp

section \<open>Access to the wrong variant\<close>

text \<open>
  C4. On every instance whose \<^verbatim>\<open>isOK\<close> is false the \<^verbatim>\<open>payload\<close> getter throws
  (\<^verbatim>\<open>'Payload is not available'\<close>); on every instance whose \<^verbatim>\<open>isOK\<close> is true the
  \<^verbatim>\<open>error\<close> getter throws (\<^verbatim>\<open>'No error information is available'\<close>) and the
  \<^verbatim>\<open>message\<close> getter throws (\<^verbatim>\<open>'No error message is available'\<close>). The error is the
  outcome of the call itself, and the object after the call is the object before it.
\<close>

theorem wrong_variant_access_throws:
  "(fst (Result_isOK this) = False \<longrightarrow>
      Result_payload this = (Inl (Error ''Payload is not available''), this))
   \<and> (fst (Result_isOK this) = True \<longrightarrow>
      Result_error this = (Inl (Error ''No error information is available''), this)
      \<and> Result_message this = Some (Inl (Error ''No error message is available''), this))"
  by (simp add: Result_isOK_def Result_payload_def Result_error_def Result_message_Success)

theorem wrong_variant_access_throws_witness:
  "Result_payload \<lparr>r_isOK = False, r_payload = JUndefined, r_error = JObj 0, r_message = ''timeout''\<rparr>
     = (Inl (Error ''Payload is not available''),
        \<lparr>r_isOK = False, r_payload = JUndefined, r_error = JObj 0, r_message = ''timeout''\<rparr>)
   \<and> Result_error \<lparr>r_isOK = True, r_payload = JObj 1, r_error = JUndefined, r_message = ''''\<rparr>
     = (Inl (Error ''No error information is available''),
        \<lparr>r_isOK = True, r_payload = JObj 1, r_error = JUndefined, r_message = ''''\<rparr>)
   \<and> Result_message \<lparr>r_isOK = True, r_payload = JObj 1, r_error = JUndefined, r_message = ''''\<rparr>
     = Some (Inl (Error ''No error message is available''),
        \<lparr>r_isOK = True, r_payload = JObj 1, r_error = JUndefined, r_message = ''''\<rparr>)"
  using wrong_variant_access_throws
    [of "\<lparr>r_isOK = False, r_payload = JUndefined, r_error = JObj 0, r_message = ''timeout''\<rparr>"]
    wrong_variant_access_throws
    [of "\<lparr>r_isOK = True, r_payload = JObj 1, r_error = JUndefined, r_message = ''''\<rparr>"]
  by (simp add: Result_isOK_def)

text \<open>
  C5. Construction throws \<^verbatim>\<open>Error('To create a failed Result provide error')\<close> exactly
  when the argument has neither the key \<^verbatim>\<open>payload\<close> nor the key \<^verbatim>\<open>error\<close>; with
  either key present it returns an instance.
\<close>

theorem Result_constructor_throws_iff:
  "(Result_constructor args = Inl (Error ''To create a failed Result provide error''))
     = (args_payload args = None \<and> args_error args = None)
   \<and> (\<exists>this. Result_constructor args = Inr this)
     = (args_payload args \<noteq> None \<or> args_error args \<noteq> None)"
  by (cases "args_payload args"; cases "args_error args")
     (simp_all add: Result_constructor_payload Result_constructor_error
        Result_constructor_neither)

theorem Result_constructor_throws_iff_witness:
  "Result_constructor \<lparr>args_payload = None, args_error = None, args_message = Some ''m''\<rparr>
     = Inl (Error ''To create a failed Result provide error'')
   \<and> (\<exists>this. Result_constructor
         \<lparr>args_payload = Some (JNum 1), args_error = None, args_message = None\<rparr> = Inr this)
   \<and> (\<exists>this. Result_constructor
         \<lparr>args_payload = None, args_error = Some (JObj 0), args_message = None\<rparr> = Inr this)"
  using Result_constructor_throws_iff
    [of "\<lparr>args_payload = None, args_error = None, args_message = Some ''m''\<rparr>"]
    Result_constructor_throws_iff
    [of "\<lparr>args_payload = Some (JNum 1), args_error = None, args_message = None\<rparr>"]
    Result_constructor_throws_iff
    [of "\<lparr>args_payload = None, args_error = Some (JObj 0), args_message = None\<rparr>"]
  by simp

text \<open>
  C10. An argument with both keys \<^verbatim>\<open>payload\<close> and \<^verbatim>\<open>error\<close> is taken as the success
  shape: the instance is the one built from the payload alone (\<^verbatim>\<open>#error\<close> stays
  \<^verbatim>\<open>undefined\<close> and \<^verbatim>\<open>#message\<close> stays \<^verbatim>\<open>''\<close>, whatever error and message were
  given), \<^verbatim>\<open>isOK\<close> is true, and the \<^verbatim>\<open>error\<close> and \<^verbatim>\<open>message\<close> getters throw.
\<close>

theorem both_fields_is_success:
  assumes "args_payload args = Some p" and "args_error args = Some e"
  shows "\<exists>this. Result_constructor args = Inr this
           \<and> this = \<lparr>r_isOK = True, r_payload = p, r_error = JUndefined, r_message = ''''\<rparr>
           \<and> Result_constructor (args\<lparr>args_error := None, args_message := None\<rparr>) = Inr this
           \<and> Result_isOK this = (True, this)
           \<and> Result_error this = (Inl (Error ''No error information is available''), this)
           \<and> Result_message this = Some (Inl (Error ''No error message is available''), this)"
  using assms
  by (simp add: Result_constructor_payload Result_isOK_def Result_error_def
      Result_message_Success)

theorem both_fields_is_success_witness:
  "\<exists>this. Result_constructor
      \<lparr>args_payload = Some (JNum 7), args_error = Some (JObj 0), args_message = Some ''timeout''\<rparr>
        = Inr this
     \<and> this = \<lparr>r_isOK = True, r_payload = JNum 7, r_error = JUndefined, r_message = ''''\<rparr>
     \<and> Result_isOK this = (True, this)
     \<and> Result_error this = (Inl (Error ''No error information is available''), this)
     \<and> Result_message this = Some (Inl (Error ''No error message is available''), this)"
  using both_fields_is_success
    [of "\<lparr>args_payload = Some (JNum 7), args_error = Some (JObj 0),
          args_message = Some ''timeout''\<rparr>" "JNum 7" "JObj 0"]
  by simp

section \<open>Option\<close>

lemma Option_constructor_present:
  "v \<noteq> JUndefined \<Longrightarrow> v \<noteq> JNull \<Longrightarrow>
   Option_constructor v = \<lparr>o_isSome = True, o_payload = v\<rparr>"
  by (simp add: Option_constructor_def Option_fields_def)

lemma Option_constructor_absent:
  "v = JUndefined \<or> v = JNull \<Longrightarrow>
   Option_constructor v = \<lparr>o_isSome = False, o_payload = v\<rparr>"
  by (auto simp: Option_constructor_def Option_fields_def)

text \<open>
  C6. For every value \<open>v\<close> other than \<^verbatim>\<open>undefined\<close> and \<^verbatim>\<open>null\<close>, falsy ones such as
  \<^verbatim>\<open>0\<close>, \<^verbatim>\<open>''\<close> and \<^verbatim>\<open>false\<close> included, the instance built from \<open>v\<close> has
  \<^verbatim>\<open>isSome\<close> true, its \<^verbatim>\<open>payload\<close> getter returns \<open>v\<close>, and \<^verbatim>\<open>unwrap()\<close> returns
  \<open>v\<close>.
\<close>

theorem Option_present:
  assumes "v \<noteq> JUndefined" and "v \<noteq> JNull"
  shows "Option_isSome (Option_constructor v) = (True, Option_constructor v)
         \<and> Option_payload (Option_constructor v) = (Inr v, Option_constructor v)
         \<and> Option_unwrap (Option_constructor v) = (v, Option_constructor v)"
  using assms
  by (simp add: Option_constructor_present Option_isSome_def Option_payload_def
      Option_unwrap_def)

theorem Option_present_witness:
  "fst (Option_isSome (Option_constructor (JNum 0))) = True
   \<and> fst (Option_payload (Option_constructor (JNum 0))) = Inr (JNum 0)
   \<and> fst (Option_unwrap (Option_constructor (JNum 0))) = JNum 0
   \<and> fst (Option_payload (Option_constructor (JStr ''''))) = Inr (JStr '''')
   \<and> fst (Option_payload (Option_constructor (JBool False))) = Inr (JBool False)"
  using Option_present [of "JNum 0"] Option_present [of "JStr ''''"]
    Option_present [of "JBool False"]
  by simp

text \<open>
  C7. For \<open>v\<close> being \<^verbatim>\<open>undefined\<close> or \<^verbatim>\<open>null\<close>, the instance built from \<open>v\<close> has
  \<^verbatim>\<open>isSome\<close> false, its \<^verbatim>\<open>payload\<close> getter throws
  \<^verbatim>\<open>Error('No payload provided or null')\<close>, and \<^verbatim>\<open>unwrap()\<close> returns \<open>v\<close> itself.
  \<^verbatim>\<open>unwrap()\<close> has no failing path: for every \<open>w\<close>, present or absent, it returns \<open>w\<close>.
\<close>

theorem Option_absent:
  "(v = JUndefined \<or> v = JNull \<longrightarrow>
      Option_isSome (Option_constructor v) = (False, Option_constructor v)
      \<and> Option_payload (Option_constructor v)
          = (Inl (Error ''No payload provided or null''), Option_constructor v)
      \<and> Option_unwrap (Option_constructor v) = (v, Option_constructor v))
   \<and> Option_unwrap (Option_constructor w) = (w, Option_constructor w)"
  by (auto simp: Option_constructor_def Option_fields_def Option_isSome_def
      Option_payload_def Option_unwrap_def Let_def)

theorem Option_absent_witness:
  "fst (Option_isSome (Option_constructor JUndefined)) = False
   \<and> fst (Option_payload (Option_constructor JUndefined))
       = Inl (Error ''No payload provided or null'')
   \<and> fst (Option_unwrap (Option_constructor JUndefined)) = JUndefined
   \<and> fst (Option_isSome (Option_constructor JNull)) = False
   \<and> fst (Option_payload (Option_constructor JNull))
       = Inl (Error ''No payload provided or null'')
   \<and> fst (Option_unwrap (Option_constructor JNull)) = JNull
   \<and> fst (Option_unwrap (Option_constructor (JStr ''hello''))) = JStr ''hello''"
  using Option_absent [of JUndefined "JStr ''hello''"] Option_absent [of JNull JNull]
  by simp

section \<open>What a constructed instance holds\<close>

text \<open>
  C9, as claimed: every instance that construction returns has exactly one of the payload
  and the error/message group populated, and every instance whose \<^verbatim>\<open>isOK\<close> is true
  holds a payload that is not absent. The constructor asks \<^verbatim>\<open>'payload' in args\<close>, not
  whether the value is there: from \<^verbatim>\<open>{payload: undefined}\<close> it builds an instance whose
  \<^verbatim>\<open>isOK\<close> is true and whose \<^verbatim>\<open>#payload\<close> and \<^verbatim>\<open>#error\<close> are both
  \<^verbatim>\<open>undefined\<close>, with \<^verbatim>\<open>#message\<close> empty; its \<^verbatim>\<open>payload\<close> getter throws.
\<close>

theorem Success_with_absent_payload:
  "Result_constructor \<lparr>args_payload = Some JUndefined, args_error = None, args_message = None\<rparr>
     = Inr \<lparr>r_isOK = True, r_payload = JUndefined, r_error = JUndefined, r_message = ''''\<rparr>
   \<and> Result_isOK \<lparr>r_isOK = True, r_payload = JUndefined, r_error = JUndefined, r_message = ''''\<rparr>
     = (True, \<lparr>r_isOK = True, r_payload = JUndefined, r_error = JUndefined, r_message = ''''\<rparr>)
   \<and> Result_payload \<lparr>r_isOK = True, r_payload = JUndefined, r_error = JUndefined, r_message = ''''\<rparr>
     = (Inl (Error ''Payload is not available''),
        \<lparr>r_isOK = True, r_payload = JUndefined, r_error = JUndefined, r_message = ''''\<rparr>)"
  by (simp add: Result_constructor_payload Result_isOK_def Result_payload_def)

text \<open>
  C9, amended: an instance that construction returns stores one group and never the
  other. When \<^verbatim>\<open>isOK\<close> is true, \<^verbatim>\<open>#payload\<close> is the value the argument had under
  \<^verbatim>\<open>payload\<close>, whatever it is, \<^verbatim>\<open>#error\<close> is \<^verbatim>\<open>undefined\<close> and \<^verbatim>\<open>#message\<close> is
  \<^verbatim>\<open>''\<close>. When \<^verbatim>\<open>isOK\<close> is false, the argument had no key \<^verbatim>\<open>payload\<close>,
  \<^verbatim>\<open>#payload\<close> is \<^verbatim>\<open>undefined\<close>, \<^verbatim>\<open>#error\<close> is the value the argument had under
  \<^verbatim>\<open>error\<close>, and \<^verbatim>\<open>#message\<close> is the argument's message or the default text.
\<close>

theorem Result_constructor_stores_one_group:
  assumes "Result_constructor args = Inr this"
  shows "(fst (Result_isOK this) = True \<longrightarrow>
            args_payload args = Some (r_payload this)
            \<and> r_error this = JUndefined \<and> r_message this = '''')
         \<and> (fst (Result_isOK this) = False \<longrightarrow>
            args_payload args = None \<and> r_payload this = JUndefined
            \<and> args_error args = Some (r_error this)
            \<and> r_message this =
                (case args_message args of
                   Some m \<Rightarrow> m | None \<Rightarrow> ''No message has been provided''))"
proof (cases "args_payload args")
  case (Some p)
  with assms show ?thesis
    by (auto simp: Result_constructor_payload Result_isOK_def)
next
  case None
  show ?thesis
  proof (cases "args_error args")
    case (Some e)
    with None assms show ?thesis
      by (auto simp: Result_constructor_error Result_isOK_def)
  next
    case none: None
    with None assms show ?thesis
      by (simp add: Result_constructor_neither)
  qed
qed

theorem Result_constructor_stores_one_group_witness:
  "Result_constructor \<lparr>args_payload = Some (JNum 7), args_error = None, args_message = None\<rparr>
     = Inr \<lparr>r_isOK = True, r_payload = JNum 7, r_error = JUndefined, r_message = ''''\<rparr>
   \<and> Result_constructor
       \<lparr>args_payload = None, args_error = Some (JObj 0), args_message = None\<rparr>
     = Inr \<lparr>r_isOK = False, r_payload = JUndefined, r_error = JObj 0,
            r_message = ''No message has been provided''\<rparr>"
proof -
  let ?a1 = "\<lparr>args_payload = Some (JNum 7), args_error = None, args_message = None\<rparr>"
  let ?a2 = "\<lparr>args_payload = None, args_error = Some (JObj 0), args_message = None\<rparr>"
  obtain t1 where t1: "Result_constructor ?a1 = Inr t1"
    by (simp add: Result_constructor_payload)
  obtain t2 where t2: "Result_constructor ?a2 = Inr t2"
    by (simp add: Result_constructor_error)
  have ok1: "r_isOK t1" and ok2: "\<not> r_isOK t2"
    using t1 t2 by (auto simp: Result_constructor_payload Result_constructor_error)
  have "t1 = \<lparr>r_isOK = True, r_payload = JNum 7, r_error = JUndefined, r_message = ''''\<rparr>"
    using Result_constructor_stores_one_group [OF t1] ok1
    by (cases t1) (simp add: Result_isOK_def)
  moreover
  have "t2 = \<lparr>r_isOK = False, r_payload = JUndefined, r_error = JObj 0,
              r_message = ''No message has been provided''\<rparr>"
    using Result_constructor_stores_one_group [OF t2] ok2
    by (cases t2) (simp add: Result_isOK_def)
  ultimately show ?thesis using t1 t2 by simp
qed

section \<open>Repeated access\<close>

lemma Result_call_unchanged: "snd (Result_call n a this) = this"
proof (cases a)
  case Get_message
  then show ?thesis
    by (cases "r_isOK this")
       (simp_all add: Result_message_stack_Success Result_message_stack_Failure)
qed (simp_all add: Result_isOK_def Result_payload_def Result_error_def)

lemma Result_call_any_depth: "Result_call n a this = Result_call m a this"
proof (cases a)
  case Get_message
  then show ?thesis
    by (cases "r_isOK this")
       (simp_all add: Result_message_stack_Success Result_message_stack_Failure)
qed simp_all

lemma Result_calls_unchanged:
  "Result_calls n as this = (map (\<lambda>a. fst (Result_call n a this)) as, this)"
proof (induction as)
  case Nil
  then show ?case by simp
next
  case (Cons a as)
  obtain v t where c: "Result_call n a this = (v, t)" by (cases "Result_call n a this")
  with Result_call_unchanged [of n a this] have "t = this" by simp
  with c Cons.IH show ?case by simp
qed

lemma Option_call_unchanged: "snd (Option_call b this) = this"
  by (cases b) (simp_all add: Option_isSome_def Option_payload_def Option_unwrap_def)

lemma Option_calls_unchanged:
  "Option_calls bs this = (map (\<lambda>b. fst (Option_call b this)) bs, this)"
proof (induction bs)
  case Nil
  then show ?case by simp
next
  case (Cons b bs)
  obtain v t where c: "Option_call b this = (v, t)" by (cases "Option_call b this")
  with Option_call_unchanged [of b this] have "t = this" by simp
  with c Cons.IH show ?case by simp
qed

text \<open>
  C8. Whatever accessors a client calls on an instance, in whatever order and however
  often, every call, whether it returns or throws, leaves the object as it was, so
  \<^verbatim>\<open>isOK\<close> and \<^verbatim>\<open>isSome\<close> never change; and each call of a sequence yields what the
  same accessor yields on the fresh instance, so two calls of one accessor give the same
  outcome. This holds for every state of a \<^verbatim>\<open>Result\<close> and of an \<^verbatim>\<open>Option\<close>, the
  \<^verbatim>\<open>message\<close> getter on a failure instance included: there every call ends in the
  engine's \<^verbatim>\<open>RangeError\<close>, at every depth of the stack, and the calls after it go on as
  before.
\<close>

theorem accessors_leave_instance_unchanged:
  "Result_calls n as this = (map (\<lambda>a. fst (Result_call n a this)) as, this)
   \<and> snd (Result_call n a this) = this
   \<and> Result_call n a this = Result_call m a this
   \<and> Option_calls bs opt = (map (\<lambda>b. fst (Option_call b opt)) bs, opt)
   \<and> snd (Option_call b opt) = opt"
  by (simp add: Result_calls_unchanged Result_call_unchanged Option_calls_unchanged
      Option_call_unchanged Result_call_any_depth [of n a this m])

theorem accessors_leave_instance_unchanged_witness:
  "Result_calls 3 [Get_isOK, Get_message, Get_error, Get_message, Get_payload, Get_isOK]
      \<lparr>r_isOK = False, r_payload = JUndefined, r_error = JObj 0, r_message = ''timeout''\<rparr>
     = ([Inr (JBool False), Inl RangeError, Inr (JObj 0), Inl RangeError,
         Inl (Error ''Payload is not available''), Inr (JBool False)],
        \<lparr>r_isOK = False, r_payload = JUndefined, r_error = JObj 0, r_message = ''timeout''\<rparr>)
   \<and> Result_calls 0 [Get_isOK, Get_payload, Get_message, Get_payload, Get_error, Get_isOK]
      \<lparr>r_isOK = True, r_payload = JNum 7, r_error = JUndefined, r_message = ''''\<rparr>
     = ([Inr (JBool True), Inr (JNum 7), Inl (Error ''No error message is available''),
         Inr (JNum 7), Inl (Error ''No error information is available''),
         Inr (JBool True)],
        \<lparr>r_isOK = True, r_payload = JNum 7, r_error = JUndefined, r_message = ''''\<rparr>)
   \<and> Option_calls [Get_isSome, Call_unwrap, Get_opt_payload, Call_unwrap]
         (Option_constructor (JStr ''hello''))
     = ([Inr (JBool True), Inr (JStr ''hello''), Inr (JStr ''hello''), Inr (JStr ''hello'')],
        Option_constructor (JStr ''hello''))"
proof -
  let ?f = "\<lparr>r_isOK = False, r_payload = JUndefined, r_error = JObj 0,
             r_message = ''timeout''\<rparr>"
  let ?r = "\<lparr>r_isOK = True, r_payload = JNum 7, r_error = JUndefined, r_message = ''''\<rparr>"
  let ?fs = "[Get_isOK, Get_message, Get_error, Get_message, Get_payload, Get_isOK]"
  let ?rs = "[Get_isOK, Get_payload, Get_message, Get_payload, Get_error, Get_isOK]"
  let ?bs = "[Get_isSome, Call_unwrap, Get_opt_payload, Call_unwrap]"
  have f: "map (\<lambda>a. fst (Result_call 3 a ?f)) ?fs
      = [Inr (JBool False), Inl RangeError, Inr (JObj 0), Inl RangeError,
         Inl (Error ''Payload is not available''), Inr (JBool False)]"
    by (simp add: Result_isOK_def Result_payload_def Result_error_def
        Result_message_stack_Failure)
  have r: "map (\<lambda>a. fst (Result_call 0 a ?r)) ?rs
      = [Inr (JBool True), Inr (JNum 7), Inl (Error ''No error message is available''),
         Inr (JNum 7), Inl (Error ''No error information is available''),
         Inr (JBool True)]"
    by (simp add: Result_isOK_def Result_payload_def Result_error_def
        Result_message_stack_Success)
  have opt: "map (\<lambda>b. fst (Option_call b (Option_constructor (JStr ''hello'')))) ?bs
      = [Inr (JBool True), Inr (JStr ''hello''), Inr (JStr ''hello''), Inr (JStr ''hello'')]"
    by (simp add: Option_constructor_present Option_isSome_def Option_payload_def
        Option_unwrap_def)
  from accessors_leave_instance_unchanged
      [of 3 ?fs ?f Get_message 0 ?bs "Option_constructor (JStr ''hello'')" Call_unwrap]
    accessors_leave_instance_unchanged
      [of 0 ?rs ?r Get_message 3 ?bs "Option_constructor (JStr ''hello'')" Call_unwrap]
    f r opt
  show ?thesis by simp
qed

end
